theory Spec2Isabelle
  imports
    Complex_Main
    "HOL-Library.AList"
    "HOL-Library.Multiset"
    "HOL-Library.Char_ord"
    "HOL-Library.List_Lexorder"
    "HOL-Library.Product_Lexorder"
begin

section \<open>The weekly trade aggregation pipeline of scripts/etl.py\<close>

text \<open>
  The script is a pandas pipeline: \<^verbatim>\<open>extract\<close> reads a CSV file into a DataFrame,
  \<^verbatim>\<open>transform\<close> cleans the rows and groups them per week, client type, user and
  symbol, and \<^verbatim>\<open>export_top_bronze_exact\<close> reduces the aggregate to the three
  bronze users with the largest volume.

  A DataFrame is a list of column names and a list of rows; a row carries its index
  label and its cells, keyed by column name. A cell is a missing value (NaN, NaT, None
  and pd.NA alike), a string, a number or a timestamp. Numbers are exact rationals:
  the rounding of float64 arithmetic is outside this model. Timestamps are seconds
  since 1970-01-01 00:00:00, without a time zone. Strings are ASCII.
\<close>

subsection \<open>Data model\<close>

datatype cell = NA | Text string | Number rat | Timestamp int

type_synonym row = "(string \<times> cell) list"

record DataFrame =
  columns :: "string list"
  rows :: "(int \<times> row) list"

datatype message =
    Column_timestamp_not_found
  | Found_null_timestamps_at_rows "int list"
  | Unknown_mode string

text \<open>
  The exceptions the pipeline can raise. A \<open>KeyError\<close> names the columns that were
  looked up and do not exist; \<open>TypeError\<close> is the one pandas raises when pd.NA is
  used as a truth value; \<open>FileNotFoundError\<close> names the file.
\<close>

datatype error =
    ValueError message
  | KeyError "string list"
  | TypeError
  | FileNotFoundError string

definition cell_at :: "row \<Rightarrow> string \<Rightarrow> cell" where
  "cell_at r c = (case map_of r c of Some v \<Rightarrow> v | None \<Rightarrow> NA)"

definition isna :: "cell \<Rightarrow> bool" where
  "isna c = (c = NA)"

text \<open>\<open>RangeIndex\<close>: the labels 0, 1, 2, ... that read_csv and reset_index give.\<close>

definition range_index :: "row list \<Rightarrow> (int \<times> row) list" where
  "range_index rs = zip (map int [0..<length rs]) rs"

subsection \<open>String methods\<close>

definition isspace :: "char \<Rightarrow> bool" where
  "isspace c = (c \<in> set [CHR 0x09, CHR 0x0A, CHR 0x0B, CHR 0x0C, CHR 0x0D,
                          CHR 0x1C, CHR 0x1D, CHR 0x1E, CHR 0x1F, CHR 0x20])"

definition strip :: "string \<Rightarrow> string" where
  "strip s = rev (dropWhile isspace (rev (dropWhile isspace s)))"

definition lower_char :: "char \<Rightarrow> char" where
  "lower_char c =
     (case map_of (zip ''ABCDEFGHIJKLMNOPQRSTUVWXYZ'' ''abcdefghijklmnopqrstuvwxyz'') c of
        Some d \<Rightarrow> d | None \<Rightarrow> c)"

definition upper_char :: "char \<Rightarrow> char" where
  "upper_char c =
     (case map_of (zip ''abcdefghijklmnopqrstuvwxyz'' ''ABCDEFGHIJKLMNOPQRSTUVWXYZ'') c of
        Some d \<Rightarrow> d | None \<Rightarrow> c)"

definition lower :: "string \<Rightarrow> string" where
  "lower s = map lower_char s"

definition upper :: "string \<Rightarrow> string" where
  "upper s = map upper_char s"

subsection \<open>The library functions the script calls\<close>

text \<open>
  The parsers of pandas are not part of the repository. They are parameters of the
  model: \<open>parse_datetime\<close> and \<open>parse_numeric\<close> are what \<^verbatim>\<open>pd.to_datetime\<close> and
  \<^verbatim>\<open>pd.to_numeric\<close> make of a cell that is not yet a timestamp or a number (None
  where \<^verbatim>\<open>errors="coerce"\<close> yields a missing value), \<open>format\<close> is the conversion of a
  non-string cell to a string, \<open>utcnow\<close> is the clock, and \<open>read_csv\<close> is the file
  system together with the CSV reader. A column is converted cell by cell.
\<close>

record pandas =
  parse_datetime :: "cell \<Rightarrow> int option"
  parse_numeric :: "cell \<Rightarrow> rat option"
  format :: "cell \<Rightarrow> string"
  utcnow :: int
  read_csv :: "string \<Rightarrow> error + DataFrame"

definition to_datetime :: "pandas \<Rightarrow> cell \<Rightarrow> cell" where
  "to_datetime env c =
     (case c of
        NA \<Rightarrow> NA
      | Timestamp t \<Rightarrow> Timestamp t
      | _ \<Rightarrow> (case parse_datetime env c of Some t \<Rightarrow> Timestamp t | None \<Rightarrow> NA))"

definition to_numeric :: "pandas \<Rightarrow> cell \<Rightarrow> cell" where
  "to_numeric env c =
     (case c of
        NA \<Rightarrow> NA
      | Number x \<Rightarrow> Number x
      | _ \<Rightarrow> (case parse_numeric env c of Some x \<Rightarrow> Number x | None \<Rightarrow> NA))"

text \<open>
  \<^verbatim>\<open>series.astype("string").str.f()\<close>: a missing value stays missing, every other
  cell becomes a string and \<open>f\<close> is applied to it.
\<close>

definition astype_string :: "pandas \<Rightarrow> (string \<Rightarrow> string) \<Rightarrow> cell \<Rightarrow> cell" where
  "astype_string env f c =
     (case c of
        NA \<Rightarrow> NA
      | Text s \<Rightarrow> Text (f s)
      | _ \<Rightarrow> Text (f (format env c)))"

subsection \<open>Handling of null timestamps\<close>

text \<open>
  \<^verbatim>\<open>df["timestamp"].astype(str).str.strip() == ""\<close>: only a string cell can be blank
  after the conversion; a number and a timestamp print with at least one digit, and a
  missing value prints as \<^verbatim>\<open>nan\<close>.
\<close>

fun blank_after_strip :: "cell \<Rightarrow> bool" where
  "blank_after_strip (Text s) = (strip s = [])"
| "blank_after_strip _ = False"

definition empties :: "row \<Rightarrow> bool" where
  "empties r = (isna (cell_at r ''timestamp'') \<or> blank_after_strip (cell_at r ''timestamp''))"

definition handle_null_timestamps :: "DataFrame \<Rightarrow> string \<Rightarrow> error + DataFrame" where
  "handle_null_timestamps df mode =
     (if ''timestamp'' \<notin> set (columns df) then Inl (ValueError Column_timestamp_not_found)
      else if list_ex (\<lambda>(i, r). empties r) (rows df) then
        (if mode = ''error'' then
           Inl (ValueError (Found_null_timestamps_at_rows
                  (take 5 (map fst (filter (\<lambda>(i, r). empties r) (rows df))))))
         else if mode = ''drop'' then
           Inr (df\<lparr>rows := filter (\<lambda>(i, r). \<not> empties r) (rows df)\<rparr>)
         else Inl (ValueError (Unknown_mode mode)))
      else Inr df)"

subsection \<open>Week bucketing\<close>

text \<open>
  Days are counted from 1970-01-01, a Thursday; \<open>weekday\<close> is 0 on a Monday and 6 on a
  Sunday. \<open>days_from_civil\<close> gives the day number of a calendar date, so that the
  dates of the examples can be written as dates.
\<close>

definition weekday :: "int \<Rightarrow> int" where
  "weekday d = (d + 3) mod 7"

definition days_from_civil :: "int \<Rightarrow> int \<Rightarrow> int \<Rightarrow> int" where
  "days_from_civil y m d =
     (let y' = (if m \<le> 2 then y - 1 else y);
          era = y' div 400;
          yoe = y' - era * 400;
          doy = (153 * (if m > 2 then m - 3 else m + 9) + 2) div 5 + d - 1;
          doe = yoe * 365 + yoe div 4 - yoe div 100 + doy
      in era * 146097 + doe - 719468)"

definition datetime :: "int \<Rightarrow> int \<Rightarrow> int \<Rightarrow> int \<Rightarrow> int \<Rightarrow> int \<Rightarrow> int" where
  "datetime y m d hh mm ss = 86400 * days_from_civil y m d + 3600 * hh + 60 * mm + ss"

text \<open>
  \<^verbatim>\<open>to_period('W-MON')\<close>: the weekly period anchored on Monday is the week that
  \<^emph>\<open>ends\<close> on a Monday. \<open>period_W_MON_end\<close> is the day that period ends on, the
  first Monday at or after the day; the period starts six days earlier.
\<close>

definition period_W_MON_end :: "int \<Rightarrow> int" where
  "period_W_MON_end d = d + (0 - weekday d) mod 7"

definition period_W_MON_start_time :: "int \<Rightarrow> int" where
  "period_W_MON_start_time t = 86400 * (period_W_MON_end (t div 86400) - 6)"

definition to_week_start_monday :: "pandas \<Rightarrow> cell \<Rightarrow> cell" where
  "to_week_start_monday env ts =
     (case to_datetime env ts of
        Timestamp t \<Rightarrow> Timestamp (period_W_MON_start_time t)
      | _ \<Rightarrow> NA)"

subsection \<open>Column access and assignment\<close>

text \<open>\<^verbatim>\<open>df[c]\<close>, and \<^verbatim>\<open>df[c] = values\<close> or \<^verbatim>\<open>df.loc[:, c] = values\<close>: the
  column is overwritten where it exists and appended where it does not.\<close>

definition series :: "DataFrame \<Rightarrow> string \<Rightarrow> cell list" where
  "series df c = map (\<lambda>(i, r). cell_at r c) (rows df)"

definition set_column :: "string \<Rightarrow> cell list \<Rightarrow> DataFrame \<Rightarrow> DataFrame" where
  "set_column c vs df =
     df\<lparr>columns := (if c \<in> set (columns df) then columns df else columns df @ [c]),
        rows := map (\<lambda>((i, r), v). (i, AList.update c v r)) (zip (rows df) vs)\<rparr>"

definition missing_from :: "DataFrame \<Rightarrow> string list \<Rightarrow> string list" where
  "missing_from df cs = filter (\<lambda>c. c \<notin> set (columns df)) cs"

subsection \<open>Format validation\<close>

definition req :: "string list" where
  "req = [''timestamp'', ''user_id'', ''client_type'', ''symbol'', ''side'', ''quantity'',
          ''price'']"

text \<open>\<^verbatim>\<open>df.loc[keep, cs]\<close>: the rows the boolean series selects, with their labels, cut down
  to the columns \<open>cs\<close>.\<close>

definition loc :: "(row \<Rightarrow> bool) \<Rightarrow> string list \<Rightarrow> DataFrame \<Rightarrow> DataFrame" where
  "loc keep cs df =
     \<lparr>columns = cs,
      rows = map (\<lambda>(i, r). (i, map (\<lambda>c. (c, cell_at r c)) cs))
               (filter (\<lambda>(i, r). keep r) (rows df))\<rparr>"

text \<open>\<^verbatim>\<open>if bad.any(): report[name] = df.loc[bad, req]\<close>\<close>

definition flag :: "string \<Rightarrow> (row \<Rightarrow> bool) \<Rightarrow> DataFrame \<Rightarrow> (string \<times> DataFrame) list" where
  "flag name bad df =
     (if list_ex (\<lambda>(i, r). bad r) (rows df) then [(name, loc bad req df)] else [])"

text \<open>\<^verbatim>\<open>series.astype(str)\<close>: here a missing value is printed too.\<close>

definition astype_str :: "pandas \<Rightarrow> cell \<Rightarrow> string" where
  "astype_str env c = (case c of Text s \<Rightarrow> s | _ \<Rightarrow> format env c)"

text \<open>The report is a dict; it is modelled as the list of its items in insertion
  order.\<close>

definition validate_formats ::
  "pandas \<Rightarrow> DataFrame \<Rightarrow> bool \<Rightarrow> (string \<times> DataFrame) list" where
  "validate_formats env df forbid_future_ts =
     (let miss = missing_from df req in
      if miss \<noteq> [] then
        [(''missing_columns'',
          \<lparr>columns = [''missing''],
           rows = range_index (map (\<lambda>c. [(''missing'', Text c)]) miss)\<rparr>)]
      else
        let ts = (\<lambda>r. to_datetime env (cell_at r ''timestamp''));
            bad_ts = (\<lambda>r. isna (ts r));
            fut = (\<lambda>r. \<not> bad_ts r \<and>
                    (case ts r of Timestamp t \<Rightarrow> t > utcnow env | _ \<Rightarrow> False));
            bad_qty = (\<lambda>r. case to_numeric env (cell_at r ''quantity'') of
                              Number q \<Rightarrow> q \<le> 0 \<or> q \<noteq> of_int \<lfloor>q\<rfloor>
                            | _ \<Rightarrow> True);
            bad_price = (\<lambda>r. case to_numeric env (cell_at r ''price'') of
                                Number p \<Rightarrow> p \<le> 0
                              | _ \<Rightarrow> True);
            side = (\<lambda>r. lower (strip (astype_str env (cell_at r ''side''))));
            client = (\<lambda>r. lower (strip (astype_str env (cell_at r ''client_type''))));
            bad_side = (\<lambda>r. side r \<notin> set [''buy'', ''sell'']);
            bad_client = (\<lambda>r. client r \<notin> set [''gold'', ''silver'', ''bronze''])
        in flag ''invalid_timestamp_format'' bad_ts df
           @ (if forbid_future_ts then flag ''timestamp_in_future'' fut df else [])
           @ flag ''invalid_quantity'' bad_qty df
           @ flag ''invalid_price'' bad_price df
           @ flag ''invalid_side'' bad_side df
           @ flag ''invalid_client_type'' bad_client df)"

subsection \<open>Extraction\<close>

text \<open>\<^verbatim>\<open>extract(path)\<close> reads the file named by a string literal and then
  normalises the column names.\<close>

definition "extract" :: "pandas \<Rightarrow> string \<Rightarrow> error + DataFrame" where
  "extract env path =
     (case read_csv env ''data/trades.csv'' of
        Inl e \<Rightarrow> Inl e
      | Inr df \<Rightarrow>
          Inr (df\<lparr>columns := map (\<lambda>c. lower (strip c)) (columns df),
                  rows := map (\<lambda>(i, r). (i, map (\<lambda>(c, v). (lower (strip c), v)) r))
                            (rows df)\<rparr>))"

subsection \<open>Grouping\<close>

text \<open>
  \<^verbatim>\<open>groupby\<close> sorts the groups by their keys (\<^verbatim>\<open>sort=True\<close> is the default):
  numbers come before strings and a missing key comes last. With \<^verbatim>\<open>dropna=True\<close>,
  the default, a row with a missing key belongs to no group.
\<close>

fun cell_ord :: "cell \<Rightarrow> nat \<times> rat \<times> int \<times> string" where
  "cell_ord (Number x) = (0, x, 0, [])"
| "cell_ord (Timestamp t) = (1, 0, t, [])"
| "cell_ord (Text s) = (2, 0, 0, s)"
| "cell_ord NA = (3, 0, 0, [])"

definition key_of :: "string list \<Rightarrow> row \<Rightarrow> cell list" where
  "key_of cols r = map (cell_at r) cols"

definition groupby :: "string list \<Rightarrow> bool \<Rightarrow> row list \<Rightarrow> (cell list \<times> row list) list" where
  "groupby cols dropna rs =
     (let kept = (if dropna then filter (\<lambda>r. NA \<notin> set (key_of cols r)) rs else rs);
          keys = sort_key (map cell_ord) (remdups (map (key_of cols) kept))
      in map (\<lambda>k. (k, filter (\<lambda>r. key_of cols r = k) kept)) keys)"

text \<open>The reductions skip missing values; the mean of no value is missing.\<close>

fun numbers :: "cell list \<Rightarrow> rat list" where
  "numbers [] = []"
| "numbers (Number x # cs) = x # numbers cs"
| "numbers (_ # cs) = numbers cs"

definition agg_sum :: "cell list \<Rightarrow> rat" where
  "agg_sum cs = sum_list (numbers cs)"

definition agg_mean :: "cell list \<Rightarrow> cell" where
  "agg_mean cs =
     (if numbers cs = [] then NA
      else Number (sum_list (numbers cs) / of_nat (length (numbers cs))))"

subsection \<open>Transformation\<close>

text \<open>Lines 91 to 106: parsing, normalisation of the categorical columns, the two
  filters and the week bucket.\<close>

definition normalize :: "pandas \<Rightarrow> DataFrame \<Rightarrow> DataFrame" where
  "normalize env df =
     (let df1 = set_column ''timestamp'' (map (to_datetime env) (series df ''timestamp'')) df;
          df2 = set_column ''client_type''
                  (map (astype_string env (\<lambda>s. strip (lower s))) (series df1 ''client_type'')) df1;
          df3 = set_column ''symbol''
                  (map (astype_string env (\<lambda>s. strip (upper s))) (series df2 ''symbol'')) df2;
          df4 = set_column ''side''
                  (map (astype_string env (\<lambda>s. strip (lower s))) (series df3 ''side'')) df3;
          df5 = set_column ''quantity'' (map (to_numeric env) (series df4 ''quantity'')) df4;
          df6 = set_column ''price'' (map (to_numeric env) (series df5 ''price'')) df5;
          df7 = df6\<lparr>rows := filter (\<lambda>(i, r). \<not> isna (cell_at r ''timestamp'') \<and>
                                             \<not> isna (cell_at r ''quantity'') \<and>
                                             \<not> isna (cell_at r ''price'')) (rows df6)\<rparr>;
          df8 = df7\<lparr>rows := filter (\<lambda>(i, r). cell_at r ''client_type'' \<in>
                                 set [Text ''gold'', Text ''silver'', Text ''bronze''])
                               (rows df7)\<rparr>
      in set_column ''week_start_date''
           (map (to_week_start_monday env) (series df8 ''timestamp'')) df8)"

text \<open>
  The row-wise closure of lines 110 to 113. The side column was converted with
  \<^verbatim>\<open>astype("string")\<close>, whose missing value is pd.NA: comparing it with a string gives
  pd.NA again, and the conditional expression then raises a TypeError.
\<close>

fun mul :: "cell \<Rightarrow> cell \<Rightarrow> cell" where
  "mul (Number a) (Number b) = Number (a * b)"
| "mul _ _ = NA"

definition cashflow :: "row \<Rightarrow> error + cell" where
  "cashflow r =
     (case cell_at r ''side'' of
        NA \<Rightarrow> Inl TypeError
      | s \<Rightarrow> Inr (mul (mul (cell_at r ''price'') (cell_at r ''quantity''))
                     (Number (if s = Text ''sell'' then 1 else - 1))))"

fun apply_axis1 :: "(row \<Rightarrow> error + cell) \<Rightarrow> (int \<times> row) list \<Rightarrow> error + cell list" where
  "apply_axis1 f [] = Inr []"
| "apply_axis1 f ((i, r) # rs) =
     (case f r of
        Inl e \<Rightarrow> Inl e
      | Inr v \<Rightarrow> (case apply_axis1 f rs of Inl e \<Rightarrow> Inl e | Inr vs \<Rightarrow> Inr (v # vs)))"

definition group_cols :: "string list" where
  "group_cols = [''week_start_date'', ''client_type'', ''user_id'', ''symbol'']"

text \<open>
  Lines 115 to 130. The first groupby keeps the groups with a missing key
  (\<^verbatim>\<open>dropna=False\<close>), the second one, which sums the cash-flows, does not; the left
  merge then leaves \<open>total_pnl\<close> missing in the groups the second groupby has not.
\<close>

definition agg_row :: "cell list \<Rightarrow> row list \<Rightarrow> row" where
  "agg_row k g =
     zip group_cols k @
     [(''total_volume'', Number (agg_sum (map (\<lambda>r. cell_at r ''quantity'') g))),
      (''trade_count'', Number (of_nat (length g))),
      (''price'', agg_mean (map (\<lambda>r. cell_at r ''price'') g))]"

definition pnl_row :: "cell list \<Rightarrow> row list \<Rightarrow> cell list \<times> cell" where
  "pnl_row k g = (k, Number (agg_sum (map (\<lambda>r. cell_at r ''cashflow'') g)))"

definition merge_left :: "row list \<Rightarrow> (cell list \<times> cell) list \<Rightarrow> row list" where
  "merge_left agg pnl =
     map (\<lambda>r. r @ [(''total_pnl'',
            (case map_of pnl (key_of group_cols r) of Some v \<Rightarrow> v | None \<Rightarrow> NA))]) agg"

definition aggregate :: "DataFrame \<Rightarrow> bool \<Rightarrow> error + DataFrame" where
  "aggregate df include_pnl =
     (case missing_from df group_cols of
        c # _ \<Rightarrow> Inl (KeyError [c])
      | [] \<Rightarrow>
        (case missing_from df [''price'', ''quantity''] of
           c # cs \<Rightarrow> Inl (KeyError (c # cs))
         | [] \<Rightarrow>
           let rs = map snd (rows df);
               agg = map (\<lambda>(k, g). agg_row k g) (groupby group_cols False rs);
               cols = group_cols @ [''total_volume'', ''trade_count'', ''price'']
           in if include_pnl \<and> ''cashflow'' \<in> set (columns df) then
                let pnl = map (\<lambda>(k, g). pnl_row k g) (groupby group_cols True rs)
                in Inr \<lparr>columns = cols @ [''total_pnl''],
                        rows = range_index (merge_left agg pnl)\<rparr>
              else Inr \<lparr>columns = cols, rows = range_index agg\<rparr>))"

text \<open>
  \<^verbatim>\<open>transform\<close> is the preparation of the rows (lines 84 to 113) followed by the
  aggregation. The validation preview of line 86 is computed and discarded; it is left
  out. The columns are looked up in the order of lines 92 to 97, so the first one that
  is missing is the one the KeyError names.
\<close>

definition prepare :: "pandas \<Rightarrow> DataFrame \<Rightarrow> bool \<Rightarrow> string \<Rightarrow> error + DataFrame" where
  "prepare env df include_pnl null_ts_mode =
     (case handle_null_timestamps df null_ts_mode of
        Inl e \<Rightarrow> Inl e
      | Inr df0 \<Rightarrow>
        (case missing_from df0 [''client_type'', ''symbol'', ''side'', ''quantity'', ''price''] of
           c # _ \<Rightarrow> Inl (KeyError [c])
         | [] \<Rightarrow>
           let df1 = normalize env df0 in
           if include_pnl then
             (case apply_axis1 cashflow (rows df1) of
                Inl e \<Rightarrow> Inl e
              | Inr vs \<Rightarrow> Inr (set_column ''cashflow'' vs df1))
           else Inr df1))"

definition transform :: "pandas \<Rightarrow> DataFrame \<Rightarrow> bool \<Rightarrow> string \<Rightarrow> error + DataFrame" where
  "transform env df include_pnl null_ts_mode =
     (case prepare env df include_pnl null_ts_mode of
        Inl e \<Rightarrow> Inl e
      | Inr df1 \<Rightarrow> aggregate df1 include_pnl)"

subsection \<open>The top bronze clients\<close>

record top_client =
  user_id :: cell
  total_volume :: rat
  total_pnl :: rat

text \<open>\<^verbatim>\<open>bronze.groupby("user_id").agg(...)\<close>: one row per user, in ascending
  order of the user ids; rows without a user id are dropped.\<close>

definition total_row :: "cell list \<Rightarrow> row list \<Rightarrow> top_client" where
  "total_row k g =
     \<lparr>user_id = (case k of u # _ \<Rightarrow> u | [] \<Rightarrow> NA),
      total_volume = agg_sum (map (\<lambda>r. cell_at r ''total_volume'') g),
      total_pnl = agg_sum (map (\<lambda>r. cell_at r ''total_pnl'') g)\<rparr>"

definition bronze_rows :: "DataFrame \<Rightarrow> row list" where
  "bronze_rows agg_df =
     filter (\<lambda>r. cell_at r ''client_type'' = Text ''bronze'') (map snd (rows agg_df))"

definition bronze_users :: "DataFrame \<Rightarrow> cell set" where
  "bronze_users agg_df = set (map (\<lambda>r. cell_at r ''user_id'') (bronze_rows agg_df)) - {NA}"

definition bronze_totals :: "DataFrame \<Rightarrow> top_client list" where
  "bronze_totals agg_df =
     map (\<lambda>(k, g). total_row k g) (groupby [''user_id''] True (bronze_rows agg_df))"

text \<open>
  \<^verbatim>\<open>sort_values("total_volume", ascending=False)\<close> sorts with the default
  \<^verbatim>\<open>kind="quicksort"\<close>, which returns the rows in descending order and promises
  nothing about the order of rows with equal keys. The sort is a parameter of the
  model; \<open>sorts_descending\<close> is all that is known of it. \<open>stable_descending\<close> is one
  such sort, the one that keeps rows with equal keys in their order.
\<close>

definition sorts_descending :: "(top_client list \<Rightarrow> top_client list) \<Rightarrow> bool" where
  "sorts_descending f =
     (\<forall>xs. mset (f xs) = mset xs \<and> sorted (rev (map total_volume (f xs))))"

definition stable_descending :: "top_client list \<Rightarrow> top_client list" where
  "stable_descending xs = rev (sort_key total_volume (rev xs))"

text \<open>The function returns what it writes to \<^verbatim>\<open>out_csv\<close>.\<close>

definition export_top_bronze_exact ::
  "(top_client list \<Rightarrow> top_client list) \<Rightarrow> DataFrame \<Rightarrow> error + top_client list" where
  "export_top_bronze_exact sort_values agg_df =
     (if ''client_type'' \<notin> set (columns agg_df) then Inl (KeyError [''client_type''])
      else if ''user_id'' \<notin> set (columns agg_df) then Inl (KeyError [''user_id''])
      else
        (case missing_from agg_df [''total_pnl'', ''total_volume''] of
           c # cs \<Rightarrow> Inl (KeyError (c # cs))
         | [] \<Rightarrow> Inr (take 3 (sort_values (bronze_totals agg_df)))))"

text \<open>
  The reduction as the specification words it: the bronze rows are grouped by user in
  the order the users are first met, the volumes and the cash-flows of each user are
  summed, the groups are sorted by descending volume with a stable sort, and the first
  \<open>n\<close> are returned.
\<close>

definition first_encountered :: "'a list \<Rightarrow> 'a list" where
  "first_encountered xs = rev (remdups (rev xs))"

definition user_total :: "row list \<Rightarrow> cell \<Rightarrow> top_client" where
  "user_total rs u =
     \<lparr>user_id = u,
      total_volume = agg_sum (map (\<lambda>r. cell_at r ''total_volume'')
                       (filter (\<lambda>r. cell_at r ''user_id'' = u) rs)),
      total_pnl = agg_sum (map (\<lambda>r. cell_at r ''total_pnl'')
                    (filter (\<lambda>r. cell_at r ''user_id'' = u) rs))\<rparr>"

definition topBronzeClients_spec :: "DataFrame \<Rightarrow> nat \<Rightarrow> top_client list" where
  "topBronzeClients_spec agg_df n =
     take n (stable_descending
       (map (user_total (bronze_rows agg_df))
          (first_encountered (map (\<lambda>r. cell_at r ''user_id'') (bronze_rows agg_df)))))"

subsection \<open>The orchestrator\<close>

text \<open>\<^verbatim>\<open>run_etl\<close>, cut down to the tables it computes: the aggregate it stores and
  the top clients it reports.\<close>

definition run_etl ::
  "pandas \<Rightarrow> (top_client list \<Rightarrow> top_client list) \<Rightarrow> string \<Rightarrow> bool \<Rightarrow> string \<Rightarrow>
     error + (DataFrame \<times> top_client list)" where
  "run_etl env sort_values data_path include_pnl null_ts_mode =
     (case extract env data_path of
        Inl e \<Rightarrow> Inl e
      | Inr raw \<Rightarrow>
        (case transform env raw include_pnl null_ts_mode of
           Inl e \<Rightarrow> Inl e
         | Inr agg \<Rightarrow>
           (case export_top_bronze_exact sort_values agg of
              Inl e \<Rightarrow> Inl e
            | Inr top_clients \<Rightarrow> Inr (agg, top_clients))))"

subsection \<open>An environment and tables for the examples\<close>

text \<open>The parsers of this environment recognise nothing and its clock stands at the
  epoch; the examples give their timestamps and numbers as such. Its file system
  holds two files.\<close>

definition example_env :: pandas where
  "example_env =
     \<lparr>parse_datetime = (\<lambda>c. None), parse_numeric = (\<lambda>c. None), format = (\<lambda>c. ''?''),
      utcnow = 0,
      read_csv = (\<lambda>p.
        if p = ''data/trades.csv'' then
          Inr \<lparr>columns = ['' Timestamp'', ''User_ID ''],
               rows = [(0, [('' Timestamp'', Timestamp 0), (''User_ID '', Text ''u1'')])]\<rparr>
        else if p = ''other/trades.csv'' then
          Inr \<lparr>columns = [''timestamp'', ''user_id''],
               rows = [(0, [(''timestamp'', Timestamp 60), (''user_id'', Text ''u2'')])]\<rparr>
        else Inl (FileNotFoundError p))\<rparr>"

text \<open>One record of the input file, one prepared row (as the aggregation receives
  it), and one row of the aggregate.\<close>

definition trade :: "cell \<Rightarrow> cell \<Rightarrow> cell \<Rightarrow> cell \<Rightarrow> cell \<Rightarrow> cell \<Rightarrow> cell \<Rightarrow> row" where
  "trade ts user client symbol side quantity price =
     [(''timestamp'', ts), (''user_id'', user), (''client_type'', client), (''symbol'', symbol),
      (''side'', side), (''quantity'', quantity), (''price'', price)]"


definition weekly :: "cell \<Rightarrow> cell \<Rightarrow> cell \<Rightarrow> cell \<Rightarrow> rat \<Rightarrow> rat \<Rightarrow> rat \<Rightarrow> row" where
  "weekly week client user symbol volume trades price =
     [(''week_start_date'', week), (''client_type'', client), (''user_id'', user),
      (''symbol'', symbol), (''total_volume'', Number volume), (''trade_count'', Number trades),
      (''price'', Number price)]"

definition with_pnl :: "row \<Rightarrow> cell \<Rightarrow> row" where
  "with_pnl r pnl = r @ [(''total_pnl'', pnl)]"

definition weekly_columns :: "string list" where
  "weekly_columns = [''week_start_date'', ''client_type'', ''user_id'', ''symbol'',
                     ''total_volume'', ''trade_count'', ''price'']"

text \<open>Two bronze users with the same volume; user b trades in the first week, user
  a in the second one.\<close>

definition tie_trades :: DataFrame where
  "tie_trades =
     \<lparr>columns = req,
      rows = [(0, trade (Timestamp (datetime 2024 1 10 9 30 0)) (Text ''a'') (Text ''bronze'')
                    (Text ''XYZ'') (Text ''buy'') (Number 10) (Number 1)),
              (1, trade (Timestamp (datetime 2024 1 3 9 30 0)) (Text ''b'') (Text ''bronze'')
                    (Text ''XYZ'') (Text ''buy'') (Number 10) (Number 1))]\<rparr>"

definition tie_agg :: DataFrame where
  "tie_agg =
     \<lparr>columns = weekly_columns @ [''total_pnl''],
      rows = [(0, with_pnl (weekly (Timestamp (datetime 2024 1 2 0 0 0)) (Text ''bronze'') (Text ''b'')
                    (Text ''XYZ'') 10 1 1) (Number (- 10))),
              (1, with_pnl (weekly (Timestamp (datetime 2024 1 9 0 0 0)) (Text ''bronze'') (Text ''a'')
                    (Text ''XYZ'') 10 1 1) (Number (- 10)))]\<rparr>"

definition tie_agg_mirrored :: DataFrame where
  "tie_agg_mirrored =
     \<lparr>columns = weekly_columns @ [''total_pnl''],
      rows = [(0, with_pnl (weekly (Timestamp (datetime 2024 1 2 0 0 0)) (Text ''bronze'') (Text ''a'')
                    (Text ''XYZ'') 10 1 1) (Number (- 10))),
              (1, with_pnl (weekly (Timestamp (datetime 2024 1 9 0 0 0)) (Text ''bronze'') (Text ''b'')
                    (Text ''XYZ'') 10 1 1) (Number (- 10)))]\<rparr>"

text \<open>The bronze users A, B, C and D with the volumes 100, 50, 30 and 10, and a
  gold user.\<close>

definition abcd_agg :: DataFrame where
  "abcd_agg =
     \<lparr>columns = weekly_columns @ [''total_pnl''],
      rows = [(0, with_pnl (weekly (Timestamp (datetime 2024 1 2 0 0 0)) (Text ''bronze'') (Text ''C'')
                    (Text ''XYZ'') 30 1 1) (Number (- 30))),
              (1, with_pnl (weekly (Timestamp (datetime 2024 1 2 0 0 0)) (Text ''bronze'') (Text ''D'')
                    (Text ''XYZ'') 10 1 1) (Number (- 10))),
              (2, with_pnl (weekly (Timestamp (datetime 2024 1 2 0 0 0)) (Text ''gold'') (Text ''G'')
                    (Text ''XYZ'') 500 1 1) (Number 500)),
              (3, with_pnl (weekly (Timestamp (datetime 2024 1 9 0 0 0)) (Text ''bronze'') (Text ''A'')
                    (Text ''ABC'') 60 2 1) (Number 60)),
              (4, with_pnl (weekly (Timestamp (datetime 2024 1 9 0 0 0)) (Text ''bronze'') (Text ''A'')
                    (Text ''XYZ'') 40 1 1) (Number (- 40))),
              (5, with_pnl (weekly (Timestamp (datetime 2024 1 9 0 0 0)) (Text ''bronze'') (Text ''B'')
                    (Text ''XYZ'') 50 1 1) (Number 50))]\<rparr>"

text \<open>A single bronze trade with price 10 and quantity 2: a purchase, a sale, and a
  purchase whose symbol field is empty in the file.\<close>

definition single_trade :: "cell \<Rightarrow> cell \<Rightarrow> DataFrame" where
  "single_trade symbol side =
     \<lparr>columns = req,
      rows = [(0, trade (Timestamp (datetime 2024 1 3 9 30 0)) (Text ''u1'') (Text ''bronze'')
                    symbol side (Number 2) (Number 10))]\<rparr>"



section \<open>Properties\<close>

subsection \<open>Week bucketing\<close>

lemma W_MON_end_is_monday: "weekday (period_W_MON_end d) = 0"
proof -
  define a where "a = d + 3"
  have "period_W_MON_end d + 3 = a + (- a) mod 7"
    unfolding period_W_MON_end_def weekday_def a_def by (simp add: mod_minus_eq)
  moreover have "(a + (- a) mod 7) mod 7 = 0"
    by (simp add: mod_add_right_eq)
  ultimately show ?thesis
    unfolding weekday_def by simp
qed

lemma W_MON_end_bounds: "d \<le> period_W_MON_end d \<and> period_W_MON_end d < d + 7"
  unfolding period_W_MON_end_def by simp

text \<open>The bucket is always a Tuesday, the one at or before the instant.\<close>

lemma period_W_MON_start_is_tuesday:
  "weekday (period_W_MON_start_time t div 86400) = 1"
proof -
  define e where "e = period_W_MON_end (t div 86400)"
  have "(e + 3) mod 7 = 0"
    using W_MON_end_is_monday [of "t div 86400"] by (simp add: weekday_def e_def)
  then have "(e + 3 + (- 6)) mod 7 = (0 + (- 6)) mod 7"
    by (metis mod_add_left_eq)
  then have "(e - 6 + 3) mod 7 = 1"
    by (simp add: algebra_simps)
  moreover have "period_W_MON_start_time t div 86400 = e - 6"
    unfolding period_W_MON_start_time_def e_def by simp
  ultimately show ?thesis
    unfolding weekday_def by simp
qed

lemma period_W_MON_start_bounds:
  "period_W_MON_start_time t \<le> t \<and> t < period_W_MON_start_time t + 7 * 86400"
proof -
  define d where "d = t div 86400"
  have "t = 86400 * d + t mod 86400"
    unfolding d_def by simp
  moreover have "0 \<le> t mod 86400" and "t mod 86400 < 86400"
    by simp_all
  ultimately have "86400 * d \<le> t" and "t < 86400 * d + 86400"
    by linarith+
  then show ?thesis
    unfolding period_W_MON_start_time_def d_def [symmetric]
    using W_MON_end_bounds [of d] by auto
qed

lemma to_week_start_monday_is_tuesday:
  assumes "to_week_start_monday env (Timestamp t) = Timestamp w"
  shows "weekday (w div 86400) = 1" and "w mod 86400 = 0" and "w \<le> t" and "t < w + 7 * 86400"
proof -
  have w: "w = period_W_MON_start_time t"
    using assms by (simp add: to_week_start_monday_def to_datetime_def)
  show "weekday (w div 86400) = 1"
    unfolding w by (rule period_W_MON_start_is_tuesday)
  show "w mod 86400 = 0"
    unfolding w by (simp add: period_W_MON_start_time_def)
  show "w \<le> t" and "t < w + 7 * 86400"
    unfolding w using period_W_MON_start_bounds [of t] by simp_all
qed

text \<open>Every row the normalization keeps has a timestamp, and its bucket is the start
  of the weekly period of that timestamp, a Tuesday.\<close>

lemma cell_at_update: "cell_at (AList.update c v r) c' = (if c' = c then v else cell_at r c')"
  by (simp add: cell_at_def update_conv')

lemma rows_set_column_series:
  "rows (set_column c (map f (series df c')) df)
   = map (\<lambda>(i, r). (i, AList.update c (f (cell_at r c')) r)) (rows df)"
proof -
  have "zip xs (map f (map (\<lambda>(i, r). cell_at r c') xs))
        = map (\<lambda>x. (x, f (case x of (i, r) \<Rightarrow> cell_at r c'))) xs" for xs :: "(int \<times> row) list"
    by (induction xs) simp_all
  then show ?thesis
    by (simp add: set_column_def series_def case_prod_unfold comp_def)
qed

lemma to_datetime_cases: "to_datetime env c = NA \<or> (\<exists>t. to_datetime env c = Timestamp t)"
  by (simp add: to_datetime_def split: cell.splits option.splits)

lemma to_datetime_Timestamp: "to_datetime env (Timestamp t) = Timestamp t"
  by (simp add: to_datetime_def)

lemma normalize_week_start:
  assumes "(i, r) \<in> set (rows (normalize env df))"
  shows "\<exists>t. cell_at r ''timestamp'' = Timestamp t
           \<and> cell_at r ''week_start_date'' = Timestamp (period_W_MON_start_time t)"
proof -
  from assms obtain c where ts: "cell_at r ''timestamp'' = to_datetime env c"
    and nn: "to_datetime env c \<noteq> NA"
    and ws: "cell_at r ''week_start_date'' = to_week_start_monday env (to_datetime env c)"
    unfolding normalize_def Let_def
    by (auto simp add: rows_set_column_series cell_at_update isna_def)
  from nn obtain t where t: "to_datetime env c = Timestamp t"
    using to_datetime_cases [of env c] by blast
  show ?thesis
    by (simp add: ts ws t to_week_start_monday_def to_datetime_Timestamp)
qed

text \<open>
  Claim C1. The week bucket of a kept row should be the Monday at or before its
  timestamp: 2024-01-01 for a trade on Wednesday 2024-01-03, and 2023-12-25 for a trade
  on Sunday 2023-12-31. The code computes the start of the weekly period that ends on
  a Monday: 2024-01-01 is a Monday, the two trades are bucketed to the Tuesdays
  2024-01-02 and 2023-12-26, and so is the group of the Wednesday trade in the
  aggregate.
\<close>

theorem to_week_start_monday_gives_tuesday:
  "weekday (days_from_civil 2024 1 1) = 0
   \<and> to_week_start_monday example_env (Timestamp (datetime 2024 1 3 12 0 0))
       = Timestamp (datetime 2024 1 2 0 0 0)
   \<and> to_week_start_monday example_env (Timestamp (datetime 2023 12 31 12 0 0))
       = Timestamp (datetime 2023 12 26 0 0 0)
   \<and> transform example_env (single_trade (Text ''abc'') (Text ''buy'')) False ''error'' =
       Inr \<lparr>columns = weekly_columns,
            rows = [(0, weekly (Timestamp (datetime 2024 1 2 0 0 0)) (Text ''bronze'')
                          (Text ''u1'') (Text ''ABC'') 2 1 10)]\<rparr>"
proof -
  have "weekday (days_from_civil 2024 1 1) = 0"
    by (simp add: weekday_def days_from_civil_def)
  moreover have "to_week_start_monday example_env (Timestamp (datetime 2024 1 3 12 0 0))
       = Timestamp (datetime 2024 1 2 0 0 0)"
    by (simp add: to_week_start_monday_def to_datetime_def period_W_MON_start_time_def
        period_W_MON_end_def weekday_def datetime_def days_from_civil_def)
  moreover have "to_week_start_monday example_env (Timestamp (datetime 2023 12 31 12 0 0))
       = Timestamp (datetime 2023 12 26 0 0 0)"
    by (simp add: to_week_start_monday_def to_datetime_def period_W_MON_start_time_def
        period_W_MON_end_def weekday_def datetime_def days_from_civil_def)
  moreover have "transform example_env (single_trade (Text ''abc'') (Text ''buy'')) False ''error'' =
       Inr \<lparr>columns = weekly_columns,
            rows = [(0, weekly (Timestamp (datetime 2024 1 2 0 0 0)) (Text ''bronze'')
                          (Text ''u1'') (Text ''ABC'') 2 1 10)]\<rparr>"
    by code_simp
  ultimately show ?thesis
    by (intro conjI)
qed

subsection \<open>Null timestamps\<close>

text \<open>
  Claim C3, as stated: every policy value other than "error" and "drop" makes the
  normalization fail, whether or not a timestamp is missing. Counterexample: with the
  policy "fill" and a table whose only row has a timestamp, the table is returned.
\<close>

theorem handle_null_timestamps_fill_returns_table:
  "handle_null_timestamps
     \<lparr>columns = [''timestamp''], rows = [(0, [(''timestamp'', Timestamp 0)])]\<rparr> ''fill''
   = Inr \<lparr>columns = [''timestamp''], rows = [(0, [(''timestamp'', Timestamp 0)])]\<rparr>"
  by (simp add: handle_null_timestamps_def empties_def cell_at_def isna_def)

text \<open>
  Claim C3, amended. For a policy value other than "error" and "drop": a table without
  a timestamp column fails with the error about that column; a table with at least
  one null or blank timestamp fails with the unknown-mode error that names the value;
  every other table is returned unchanged.
\<close>

theorem handle_null_timestamps_unknown_mode:
  assumes "mode \<noteq> ''error''" and "mode \<noteq> ''drop''"
  shows "handle_null_timestamps df mode =
     (if ''timestamp'' \<notin> set (columns df) then Inl (ValueError Column_timestamp_not_found)
      else if (\<exists>(i, r) \<in> set (rows df). empties r) then Inl (ValueError (Unknown_mode mode))
      else Inr df)"
  using assms by (auto simp add: handle_null_timestamps_def list_ex_iff)

theorem handle_null_timestamps_unknown_mode_witness:
  "''fill'' \<noteq> ''error'' \<and> ''fill'' \<noteq> ''drop'' \<and>
   handle_null_timestamps
     \<lparr>columns = [''timestamp''], rows = [(0, [(''timestamp'', Text '' '')])]\<rparr> ''fill''
   = Inl (ValueError (Unknown_mode ''fill''))"
  using handle_null_timestamps_unknown_mode
    [of "''fill''" "\<lparr>columns = [''timestamp''], rows = [(0, [(''timestamp'', Text '' '')])]\<rparr>"]
  by (simp add: empties_def cell_at_def isna_def strip_def isspace_def)





subsection \<open>Format validation\<close>

text \<open>
  Claim C5. For a table that lacks at least one of the seven required columns, the
  report of the validator has the single entry \<open>missing_columns\<close>, which lists the
  missing names in the order of the required columns; no row-level entry is in the
  report, and the validator returns a report, not an error.
\<close>

theorem validate_formats_missing_columns:
  assumes "\<not> set req \<subseteq> set (columns df)"
  shows "validate_formats env df forbid_future_ts =
     [(''missing_columns'',
       \<lparr>columns = [''missing''],
        rows = range_index (map (\<lambda>c. [(''missing'', Text c)])
                 (filter (\<lambda>c. c \<notin> set (columns df)) req))\<rparr>)]"
proof -
  have "missing_from df req \<noteq> []"
    using assms by (auto simp add: missing_from_def filter_empty_conv)
  then show ?thesis
    by (simp add: validate_formats_def Let_def missing_from_def)
qed

theorem validate_formats_missing_columns_witness:
  "\<not> set req \<subseteq> set [''timestamp'', ''user_id'', ''client_type'', ''symbol'', ''quantity'']
   \<and> validate_formats example_env
        \<lparr>columns = [''timestamp'', ''user_id'', ''client_type'', ''symbol'', ''quantity''],
         rows = [(0, [(''timestamp'', Text ''not a date''), (''user_id'', Text ''u1''),
                      (''client_type'', Text ''platinum''), (''symbol'', Text ''abc''),
                      (''quantity'', Number (- 1))])]\<rparr> True
     = [(''missing_columns'',
         \<lparr>columns = [''missing''],
          rows = [(0, [(''missing'', Text ''side'')]), (1, [(''missing'', Text ''price'')])]\<rparr>)]"
  using validate_formats_missing_columns
    [of "\<lparr>columns = [''timestamp'', ''user_id'', ''client_type'', ''symbol'', ''quantity''],
         rows = [(0, [(''timestamp'', Text ''not a date''), (''user_id'', Text ''u1''),
                      (''client_type'', Text ''platinum''), (''symbol'', Text ''abc''),
                      (''quantity'', Number (- 1))])]\<rparr>" example_env True]
  by (simp add: req_def range_index_def upt_rec)

subsection \<open>Extraction\<close>

text \<open>
  Claim C9. The result of \<open>extract\<close> does not depend on its path argument: two calls
  with different paths return the same table, and so does the whole run; what is read
  is the file \<^verbatim>\<open>data/trades.csv\<close>, so two environments whose reader agrees on that
  file give the same table whatever the paths.
\<close>

theorem extract_ignores_path:
  "extract env path = extract env path'
   \<and> run_etl env sort_values path include_pnl null_ts_mode =
     run_etl env sort_values path' include_pnl null_ts_mode
   \<and> (read_csv env ''data/trades.csv'' = read_csv env' ''data/trades.csv'' \<longrightarrow>
        extract env path = extract env' path')"
  by (simp add: extract_def run_etl_def)

theorem extract_ignores_path_witness:
  "read_csv example_env ''data/trades.csv'' = read_csv (example_env\<lparr>utcnow := 1\<rparr>) ''data/trades.csv''
   \<and> extract example_env ''other/trades.csv'' = extract (example_env\<lparr>utcnow := 1\<rparr>) ''missing.csv''
   \<and> extract example_env ''other/trades.csv'' =
       Inr \<lparr>columns = [''timestamp'', ''user_id''],
            rows = [(0, [(''timestamp'', Timestamp 0), (''user_id'', Text ''u1'')])]\<rparr>"
  using extract_ignores_path
    [where env = example_env and path = "''other/trades.csv''" and path' = "''missing.csv''"
       and env' = "example_env\<lparr>utcnow := 1\<rparr>"]
  by (simp add: example_env_def extract_def strip_def isspace_def lower_def lower_char_def)

subsection \<open>Aggregation\<close>

lemma map_snd_range_index: "map snd (range_index rs) = rs"
  by (simp add: range_index_def)




lemma groupby_as_map:
  "groupby cols dropna rs =
     map (\<lambda>k. (k, filter (\<lambda>r. key_of cols r = k)
                     (if dropna then filter (\<lambda>r. NA \<notin> set (key_of cols r)) rs else rs)))
       (sort_key (map cell_ord)
          (remdups (map (key_of cols)
             (if dropna then filter (\<lambda>r. NA \<notin> set (key_of cols r)) rs else rs))))"
  by (simp add: groupby_def Let_def)









text \<open>The rows of the aggregate, and their keys.\<close>

lemma aggregate_Inr:
  assumes "aggregate df include_pnl = Inr agg"
  shows "rows agg =
     (let xs = map (\<lambda>(k, g). agg_row k g) (groupby group_cols False (map snd (rows df)))
      in if include_pnl \<and> ''cashflow'' \<in> set (columns df)
         then range_index (merge_left xs
                (map (\<lambda>(k, g). pnl_row k g) (groupby group_cols True (map snd (rows df)))))
         else range_index xs)"
    and "columns agg =
     (if include_pnl \<and> ''cashflow'' \<in> set (columns df)
      then group_cols @ [''total_volume'', ''trade_count'', ''price''] @ [''total_pnl'']
      else group_cols @ [''total_volume'', ''trade_count'', ''price''])"
proof -
  have n1: "missing_from df group_cols = []"
    using assms by (cases "missing_from df group_cols") (simp_all add: aggregate_def)
  have n2: "missing_from df [''price'', ''quantity''] = []"
    using assms n1
    by (cases "missing_from df [''price'', ''quantity'']") (simp_all add: aggregate_def)
  have "agg =
     (if include_pnl \<and> ''cashflow'' \<in> set (columns df)
      then \<lparr>columns = (group_cols @ [''total_volume'', ''trade_count'', ''price'']) @ [''total_pnl''],
            rows = range_index (merge_left
              (map (\<lambda>(k, g). agg_row k g) (groupby group_cols False (map snd (rows df))))
              (map (\<lambda>(k, g). pnl_row k g) (groupby group_cols True (map snd (rows df)))))\<rparr>
      else \<lparr>columns = group_cols @ [''total_volume'', ''trade_count'', ''price''],
            rows = range_index
              (map (\<lambda>(k, g). agg_row k g) (groupby group_cols False (map snd (rows df))))\<rparr>)"
    using assms n1 n2
    by (cases "include_pnl \<and> ''cashflow'' \<in> set (columns df)")
       (auto simp add: aggregate_def Let_def)
  then show "rows agg =
     (let xs = map (\<lambda>(k, g). agg_row k g) (groupby group_cols False (map snd (rows df)))
      in if include_pnl \<and> ''cashflow'' \<in> set (columns df)
         then range_index (merge_left xs
                (map (\<lambda>(k, g). pnl_row k g) (groupby group_cols True (map snd (rows df)))))
         else range_index xs)"
    and "columns agg =
     (if include_pnl \<and> ''cashflow'' \<in> set (columns df)
      then group_cols @ [''total_volume'', ''trade_count'', ''price''] @ [''total_pnl'']
      else group_cols @ [''total_volume'', ''trade_count'', ''price''])"
    by (simp_all add: Let_def)
qed

lemma length_key_of: "length (key_of cols r) = length cols"
  by (simp add: key_of_def)

lemma key_of_agg_row:
  assumes "length k = length group_cols"
  shows "key_of group_cols (agg_row k g) = k"
    and "key_of group_cols (agg_row k g @ [(''total_pnl'', v)]) = k"
proof -
  from assms obtain a b c d where k: "k = [a, b, c, d]"
    by (auto simp add: group_cols_def length_Suc_conv)
  show "key_of group_cols (agg_row k g) = k"
    by (simp add: k key_of_def agg_row_def group_cols_def cell_at_def)
  show "key_of group_cols (agg_row k g @ [(''total_pnl'', v)]) = k"
    by (simp add: k key_of_def agg_row_def group_cols_def cell_at_def)
qed

lemma groupby_keys:
  "distinct (map fst (groupby cols dropna rs))"
  "\<forall>k \<in> set (map fst (groupby cols dropna rs)). length k = length cols"
  by (auto simp add: groupby_as_map comp_def length_key_of)




text \<open>Without the cash-flows, the aggregate has the seven columns of the first
  groupby and nothing else.\<close>

lemma aggregate_without_pnl:
  assumes "aggregate df False = Inr agg"
  shows "columns agg = group_cols @ [''total_volume'', ''trade_count'', ''price'']"
    and "\<forall>(i, r) \<in> set (rows agg). ''total_pnl'' \<notin> fst ` set r"
proof -
  define rs where "rs = map (\<lambda>(k, g). agg_row k g) (groupby group_cols False (map snd (rows df)))"
  show "columns agg = group_cols @ [''total_volume'', ''trade_count'', ''price'']"
    using aggregate_Inr(2) [OF assms] by simp
  have eq: "rows agg = range_index rs"
    using aggregate_Inr(1) [OF assms] by (simp add: rs_def)
  have "''total_pnl'' \<notin> fst ` set (agg_row k g)" for k g
  proof -
    have "fst ` set (zip group_cols k) \<subseteq> set group_cols"
      by (auto dest: set_zip_leftD)
    then have "''total_pnl'' \<notin> fst ` set (zip group_cols k)"
      by (auto simp add: group_cols_def)
    then show ?thesis by (simp add: agg_row_def image_Un)
  qed
  then have "\<forall>r \<in> set rs. ''total_pnl'' \<notin> fst ` set r"
    by (auto simp add: rs_def)
  moreover have "set rs = snd ` set (range_index rs)"
    using map_snd_range_index [of rs] by (metis set_map)
  ultimately show "\<forall>(i, r) \<in> set (rows agg). ''total_pnl'' \<notin> fst ` set r"
    by (simp add: eq case_prod_unfold)
qed

lemma transform_without_pnl:
  assumes "transform env df False null_ts_mode = Inr agg"
  shows "\<exists>df1. aggregate df1 False = Inr agg"
  using assms by (auto simp add: transform_def split: sum.splits)

text \<open>
  Claim C8. When PnL inclusion is disabled, a table returned by \<open>transform\<close> has no
  \<open>total_pnl\<close> column: the name is not among its columns, and no row has a cell
  under that name.
\<close>

theorem transform_without_pnl_has_no_total_pnl:
  assumes "transform env df False null_ts_mode = Inr agg"
  shows "''total_pnl'' \<notin> set (columns agg)
       \<and> (\<forall>(i, r) \<in> set (rows agg). ''total_pnl'' \<notin> fst ` set r)"
proof -
  obtain df1 where "aggregate df1 False = Inr agg"
    using transform_without_pnl [OF assms] by blast
  then show ?thesis
    using aggregate_without_pnl [of df1 agg] by (simp add: group_cols_def)
qed

theorem transform_without_pnl_has_no_total_pnl_witness:
  "transform example_env (single_trade (Text ''abc'') (Text ''BUY'')) False ''error'' =
     Inr \<lparr>columns = weekly_columns,
          rows = [(0, weekly (Timestamp (datetime 2024 1 2 0 0 0)) (Text ''bronze'') (Text ''u1'')
                        (Text ''ABC'') 2 1 10)]\<rparr>
   \<and> ''total_pnl'' \<notin> set weekly_columns
   \<and> ''total_pnl'' \<notin> fst ` set (weekly (Timestamp (datetime 2024 1 2 0 0 0)) (Text ''bronze'')
                                   (Text ''u1'') (Text ''ABC'') 2 1 10)"
proof -
  have e: "transform example_env (single_trade (Text ''abc'') (Text ''BUY'')) False ''error'' =
     Inr \<lparr>columns = weekly_columns,
          rows = [(0, weekly (Timestamp (datetime 2024 1 2 0 0 0)) (Text ''bronze'') (Text ''u1'')
                        (Text ''ABC'') 2 1 10)]\<rparr>"
    by code_simp
  from transform_without_pnl_has_no_total_pnl [OF e] e show ?thesis
    by simp
qed

subsection \<open>The signed cash-flow\<close>

text \<open>The cash-flow of a row whose side is a string: the sign is positive for
  \<^verbatim>\<open>sell\<close> and negative for every other string.\<close>

lemma cashflow_sign:
  assumes "cell_at r ''side'' = Text s"
    and "cell_at r ''price'' = Number p" and "cell_at r ''quantity'' = Number q"
  shows "cashflow r = Inr (Number (p * q * (if s = ''sell'' then 1 else - 1)))"
  using assms by (simp add: cashflow_def)

lemma cashflow_of_missing_side: "cell_at r ''side'' = NA \<Longrightarrow> cashflow r = Inl TypeError"
  by (simp add: cashflow_def)

text \<open>The sign law on the two examples: a single bronze purchase with price 10 and
  quantity 2 gives its group the total -20, the sale gives +20.\<close>

lemma total_pnl_of_single_trade:
  "transform example_env (single_trade (Text ''abc'') (Text ''BUY'')) True ''error'' =
     Inr \<lparr>columns = weekly_columns @ [''total_pnl''],
          rows = [(0, with_pnl (weekly (Timestamp (datetime 2024 1 2 0 0 0)) (Text ''bronze'')
                        (Text ''u1'') (Text ''ABC'') 2 1 10) (Number (- 20)))]\<rparr>
   \<and> transform example_env (single_trade (Text ''abc'') (Text ''SELL'')) True ''error'' =
     Inr \<lparr>columns = weekly_columns @ [''total_pnl''],
          rows = [(0, with_pnl (weekly (Timestamp (datetime 2024 1 2 0 0 0)) (Text ''bronze'')
                        (Text ''u1'') (Text ''ABC'') 2 1 10) (Number 20))]\<rparr>"
  by code_simp

text \<open>
  The total of a group in general: the sum of the cash-flows of its rows when no part
  of its key is missing, and a missing value otherwise.
\<close>

lemma map_of_keyed: "map_of (map (\<lambda>k. (k, f k)) ks) k = (if k \<in> set ks then Some (f k) else None)"
  by (induction ks) simp_all

lemma aggregate_total_pnl:
  assumes agg: "aggregate df True = Inr agg" and cf: "''cashflow'' \<in> set (columns df)"
    and r: "(i, r) \<in> set (rows agg)"
  shows "cell_at r ''total_pnl'' =
     (if NA \<in> set (key_of group_cols r) then NA
      else Number (agg_sum (map (\<lambda>x. cell_at x ''cashflow'')
             (filter (\<lambda>x. key_of group_cols x = key_of group_cols r) (map snd (rows df))))))"
proof -
  define rs where "rs = map snd (rows df)"
  define kept where "kept = filter (\<lambda>x. NA \<notin> set (key_of group_cols x)) rs"
  define keys' where "keys' = sort_key (map cell_ord) (remdups (map (key_of group_cols) kept))"
  define total where "total k = Number (agg_sum (map (\<lambda>x. cell_at x ''cashflow'')
                        (filter (\<lambda>x. key_of group_cols x = k) kept)))" for k
  define pnl where "pnl = map (\<lambda>(k, g). pnl_row k g) (groupby group_cols True rs)"
  define gs where "gs = groupby group_cols False rs"
  have pnl: "pnl = map (\<lambda>k. (k, total k)) keys'"
    by (simp add: pnl_def groupby_def Let_def kept_def keys'_def total_def pnl_row_def comp_def)
  have rows: "rows agg = range_index (merge_left (map (\<lambda>(k, g). agg_row k g) gs) pnl)"
    using aggregate_Inr(1) [OF agg] cf by (simp add: Let_def gs_def pnl_def rs_def)
  have "r \<in> set (map snd (rows agg))"
    using r by force
  then have "r \<in> set (merge_left (map (\<lambda>(k, g). agg_row k g) gs) pnl)"
    by (simp only: rows map_snd_range_index)
  then obtain k g where kg: "(k, g) \<in> set gs"
    and r_eq: "r = agg_row k g @ [(''total_pnl'',
                 (case map_of pnl (key_of group_cols (agg_row k g)) of Some v \<Rightarrow> v | None \<Rightarrow> NA))]"
    by (auto simp add: merge_left_def)
  have len: "length k = length group_cols"
    using groupby_keys(2) [of group_cols False rs] kg by (force simp add: gs_def)
  then obtain a b c d where k4: "k = [a, b, c, d]"
    by (auto simp add: group_cols_def length_Suc_conv)
  have key_r: "key_of group_cols r = k"
    unfolding r_eq by (rule key_of_agg_row(2) [OF len])
  have at: "cell_at r ''total_pnl'' = (case map_of pnl k of Some v \<Rightarrow> v | None \<Rightarrow> NA)"
    unfolding r_eq key_of_agg_row(1) [OF len]
    by (simp add: k4 agg_row_def group_cols_def cell_at_def)
  have "k \<in> set (map fst gs)"
    using kg by force
  then have in_rs: "k \<in> key_of group_cols ` set rs"
    by (simp add: gs_def groupby_as_map comp_def)
  have in_keys: "k \<in> set keys' \<longleftrightarrow> NA \<notin> set k"
    using in_rs by (auto simp add: keys'_def kept_def)
  show ?thesis
  proof (cases "NA \<in> set k")
    case True
    then show ?thesis
      by (simp add: at key_r pnl map_of_keyed in_keys)
  next
    case False
    then have "filter (\<lambda>x. key_of group_cols x = k) kept = filter (\<lambda>x. key_of group_cols x = k) rs"
      by (auto simp add: kept_def intro: filter_cong)
    with False show ?thesis
      by (simp add: at key_r pnl map_of_keyed in_keys total_def rs_def)
  qed
qed

text \<open>
  Claim C6. The total of every group should be the sum of the signed cash-flows of its
  rows, -20 for a single bronze purchase with price 10 and quantity 2. With an empty
  symbol field the row is kept and forms a group of the aggregate, whose volume, count
  and price are computed, but whose \<open>total_pnl\<close> is missing.
\<close>

theorem total_pnl_missing_for_null_symbol:
  "transform example_env (single_trade NA (Text ''buy'')) True ''error'' =
     Inr \<lparr>columns = weekly_columns @ [''total_pnl''],
          rows = [(0, with_pnl (weekly (Timestamp (datetime 2024 1 2 0 0 0)) (Text ''bronze'')
                        (Text ''u1'') NA 2 1 10) NA)]\<rparr>"
  by code_simp

subsection \<open>The top bronze clients\<close>

text \<open>
  Claim C10. The report reads the column \<open>total_pnl\<close>: for an aggregate without that
  column the function returns an error and writes nothing, for the aggregate of a
  transformation with PnL disabled the error is the KeyError that names
  \<open>total_pnl\<close>, and whenever rows are written the aggregate has the column.
\<close>

theorem export_top_bronze_exact_needs_total_pnl:
  "(''total_pnl'' \<notin> set (columns agg_df) \<longrightarrow>
      (\<exists>e. export_top_bronze_exact sort_values agg_df = Inl e))
   \<and> (transform env df False null_ts_mode = Inr agg_df \<longrightarrow>
        export_top_bronze_exact sort_values agg_df = Inl (KeyError [''total_pnl'']))
   \<and> (export_top_bronze_exact sort_values agg_df = Inr out \<longrightarrow>
        ''total_pnl'' \<in> set (columns agg_df))"
proof -
  have a: "\<exists>e. export_top_bronze_exact sort_values agg_df = Inl e"
    if "''total_pnl'' \<notin> set (columns agg_df)"
    using that by (simp add: export_top_bronze_exact_def missing_from_def)
  have b: "export_top_bronze_exact sort_values agg_df = Inl (KeyError [''total_pnl''])"
    if h: "transform env df False null_ts_mode = Inr agg_df"
  proof -
    obtain df1 where "aggregate df1 False = Inr agg_df"
      using transform_without_pnl [OF h] by blast
    then have "columns agg_df = group_cols @ [''total_volume'', ''trade_count'', ''price'']"
      by (rule aggregate_without_pnl)
    then show ?thesis
      by (simp add: export_top_bronze_exact_def missing_from_def group_cols_def)
  qed
  from a b show ?thesis by fastforce
qed

theorem export_top_bronze_exact_needs_total_pnl_witness:
  "transform example_env (single_trade (Text ''abc'') (Text ''BUY'')) False ''error'' =
     Inr \<lparr>columns = weekly_columns,
          rows = [(0, weekly (Timestamp (datetime 2024 1 2 0 0 0)) (Text ''bronze'') (Text ''u1'')
                        (Text ''ABC'') 2 1 10)]\<rparr>
   \<and> ''total_pnl'' \<notin> set weekly_columns
   \<and> export_top_bronze_exact stable_descending
        \<lparr>columns = weekly_columns,
         rows = [(0, weekly (Timestamp (datetime 2024 1 2 0 0 0)) (Text ''bronze'') (Text ''u1'')
                       (Text ''ABC'') 2 1 10)]\<rparr>
       = Inl (KeyError [''total_pnl''])
   \<and> export_top_bronze_exact stable_descending tie_agg =
       Inr [\<lparr>user_id = Text ''a'', total_volume = 10, total_pnl = - 10\<rparr>,
            \<lparr>user_id = Text ''b'', total_volume = 10, total_pnl = - 10\<rparr>]
   \<and> ''total_pnl'' \<in> set (columns tie_agg)"
proof -
  have e: "transform example_env (single_trade (Text ''abc'') (Text ''BUY'')) False ''error'' =
     Inr \<lparr>columns = weekly_columns,
          rows = [(0, weekly (Timestamp (datetime 2024 1 2 0 0 0)) (Text ''bronze'') (Text ''u1'')
                        (Text ''ABC'') 2 1 10)]\<rparr>"
    by code_simp
  have n: "''total_pnl'' \<notin> set weekly_columns"
    by (simp add: weekly_columns_def)
  have t: "export_top_bronze_exact stable_descending tie_agg =
       Inr [\<lparr>user_id = Text ''a'', total_volume = 10, total_pnl = - 10\<rparr>,
            \<lparr>user_id = Text ''b'', total_volume = 10, total_pnl = - 10\<rparr>]"
    by code_simp
  from export_top_bronze_exact_needs_total_pnl
         [where agg_df = "\<lparr>columns = weekly_columns,
            rows = [(0, weekly (Timestamp (datetime 2024 1 2 0 0 0)) (Text ''bronze'') (Text ''u1'')
                          (Text ''ABC'') 2 1 10)]\<rparr>"
          and sort_values = stable_descending and env = example_env
          and df = "single_trade (Text ''abc'') (Text ''BUY'')" and null_ts_mode = "''error''"]
       export_top_bronze_exact_needs_total_pnl
         [where agg_df = tie_agg and sort_values = stable_descending
          and out = "[\<lparr>user_id = Text ''a'', total_volume = 10, total_pnl = - 10\<rparr>,
                      \<lparr>user_id = Text ''b'', total_volume = 10, total_pnl = - 10\<rparr>]"]
       e n t
  show ?thesis by simp
qed

text \<open>What is known of the sort, and what follows from it.\<close>

lemma sorts_descending_stable: "sorts_descending stable_descending"
proof -
  have "rev (map total_volume (rev (sort_key total_volume (rev xs))))
        = map total_volume (sort_key total_volume (rev xs))" for xs :: "top_client list"
    by (simp add: rev_map)
  then show ?thesis
    by (simp add: sorts_descending_def stable_descending_def)
qed

lemma sorts_descending_distinct:
  assumes "sorts_descending f" and "distinct (map total_volume xs)"
  shows "f xs = rev (sort_key total_volume xs)"
proof -
  have m: "mset (f xs) = mset xs" and s: "sorted (rev (map total_volume (f xs)))"
    using assms(1) by (simp_all add: sorts_descending_def)
  have "mset (map total_volume (f xs)) = mset (map total_volume xs)"
    using m by simp
  then have d: "distinct (map total_volume (f xs))"
    using assms(2) by (metis mset_eq_imp_distinct_iff)
  have e: "set (f xs) = set xs"
    using m by (rule mset_eq_setD)
  have "rev (f xs) = sort_key total_volume xs"
  proof (rule map_sorted_distinct_set_unique [where f = total_volume])
    show "inj_on total_volume (set (rev (f xs)) \<union> set (sort_key total_volume xs))"
      using assms(2) by (simp add: e distinct_map)
    show "sorted (map total_volume (rev (f xs)))"
      using s by (simp add: rev_map)
    show "distinct (map total_volume (rev (f xs)))"
      using d by (simp add: rev_map [symmetric])
    show "sorted (map total_volume (sort_key total_volume xs))"
      by simp
    show "distinct (map total_volume (sort_key total_volume xs))"
      using assms(2) by (simp add: distinct_map)
    show "set (rev (f xs)) = set (sort_key total_volume xs)"
      by (simp add: e)
  qed
  then show ?thesis
    by (metis rev_rev_ident)
qed

lemma descending_take_drop:
  assumes "sorted (rev (map g ys))"
  shows "\<forall>x \<in> set (drop n ys). \<forall>y \<in> set (take n ys). g x \<le> g y"
proof -
  have "rev (map g ys) = rev (map g (drop n ys)) @ rev (map g (take n ys))"
    by (metis append_take_drop_id map_append rev_append)
  with assms have "\<forall>a \<in> set (rev (map g (drop n ys))). \<forall>b \<in> set (rev (map g (take n ys))). a \<le> b"
    by (simp add: sorted_append)
  then show ?thesis by simp
qed

text \<open>The grouped sums: one row for each user id of a bronze row, the missing id
  apart, each with the sums over the bronze rows of that user, in ascending order of
  the user ids.\<close>

lemma bronze_totals_users:
  "set (bronze_totals agg_df) = user_total (bronze_rows agg_df) ` bronze_users agg_df"
  "distinct (map user_id (bronze_totals agg_df))"
  "user_id ` set (bronze_totals agg_df) = bronze_users agg_df"
  "length (bronze_totals agg_df) = card (bronze_users agg_df)"
proof -
  define B where "B = bronze_rows agg_df"
  define users where "users = bronze_users agg_df"
  define kept where "kept = filter (\<lambda>r. NA \<notin> set (key_of [''user_id''] r)) B"
  define keys where "keys = sort_key (map cell_ord) (remdups (map (key_of [''user_id'']) kept))"
  define hd' :: "cell list \<Rightarrow> cell" where "hd' k = (case k of u # _ \<Rightarrow> u | [] \<Rightarrow> NA)" for k
  have users: "users = {cell_at r ''user_id'' | r. r \<in> set B} - {NA}"
    by (auto simp add: users_def bronze_users_def B_def)
  have k: "key_of [''user_id''] r = [cell_at r ''user_id'']" for r
    by (simp add: key_of_def)
  have kept: "set kept = {r \<in> set B. cell_at r ''user_id'' \<noteq> NA}"
    by (auto simp add: kept_def k)
  have set_keys: "set keys = (\<lambda>u. [u]) ` users"
    by (auto simp add: keys_def kept k users image_iff)
  have dk: "distinct keys"
    by (simp add: keys_def)
  have bt: "bronze_totals agg_df
            = map (\<lambda>k. total_row k (filter (\<lambda>r. key_of [''user_id''] r = k) kept)) keys"
    by (simp add: bronze_totals_def groupby_def Let_def B_def kept_def keys_def comp_def)
  have grp: "filter (\<lambda>r. key_of [''user_id''] r = [u]) kept
             = filter (\<lambda>r. cell_at r ''user_id'' = u) B" if "u \<noteq> NA" for u
    using that by (auto simp add: kept_def k intro: filter_cong)
  have row: "total_row k (filter (\<lambda>r. key_of [''user_id''] r = k) kept) = user_total B (hd' k)"
    if "k \<in> set keys" for k
  proof -
    from that obtain u where u: "k = [u]" "u \<noteq> NA"
      by (auto simp add: set_keys users)
    show ?thesis
      by (simp add: u grp total_row_def user_total_def hd'_def)
  qed
  have bt': "bronze_totals agg_df = map (\<lambda>k. user_total B (hd' k)) keys"
    unfolding bt by (rule map_cong [OF refl]) (rule row)
  have hd'_keys: "hd' ` set keys = users"
    by (auto simp add: set_keys hd'_def image_iff)
  have "set (bronze_totals agg_df) = user_total B ` (hd' ` set keys)"
    unfolding bt' by (simp add: image_image)
  then show "set (bronze_totals agg_df) = user_total (bronze_rows agg_df) ` bronze_users agg_df"
    by (simp only: hd'_keys users_def B_def)
  have ids: "map user_id (bronze_totals agg_df) = map hd' keys"
    unfolding bt' by (simp add: user_total_def comp_def)
  have "inj_on hd' (set keys)"
    by (auto simp add: set_keys hd'_def intro!: inj_onI)
  then show d: "distinct (map user_id (bronze_totals agg_df))"
    unfolding ids using dk by (simp add: distinct_map)
  have "user_id ` set (bronze_totals agg_df) = users"
    using ids hd'_keys by (metis set_map)
  then show u: "user_id ` set (bronze_totals agg_df) = bronze_users agg_df"
    by (simp only: users_def)
  show "length (bronze_totals agg_df) = card (bronze_users agg_df)"
    using distinct_card [OF d] u by simp
qed

lemma bronze_totals_ascending:
  "sorted (map (\<lambda>t. cell_ord (user_id t)) (bronze_totals agg_df))"
proof -
  define kept where "kept = filter (\<lambda>r. NA \<notin> set (key_of [''user_id''] r)) (bronze_rows agg_df)"
  define keys where "keys = sort_key (map cell_ord) (remdups (map (key_of [''user_id'']) kept))"
  have single: "\<exists>u. k = [u]" if "k \<in> set keys" for k
    using that by (auto simp add: keys_def key_of_def)
  have "sorted (map (map cell_ord) keys)"
    by (simp add: keys_def)
  then have "sorted_wrt (\<lambda>x y. map cell_ord x \<le> map cell_ord y) keys"
    by (simp add: sorted_map)
  then have "sorted_wrt (\<lambda>x y. cell_ord (user_id (total_row x (filter (\<lambda>r. key_of [''user_id''] r = x) kept)))
                            \<le> cell_ord (user_id (total_row y (filter (\<lambda>r. key_of [''user_id''] r = y) kept)))) keys"
  proof (rule sorted_wrt_mono_rel [rotated])
    fix x y assume "x \<in> set keys" "y \<in> set keys" "map cell_ord x \<le> map cell_ord y"
    moreover from this obtain u v where "x = [u]" "y = [v]"
      using single by blast
    ultimately show "cell_ord (user_id (total_row x (filter (\<lambda>r. key_of [''user_id''] r = x) kept)))
                   \<le> cell_ord (user_id (total_row y (filter (\<lambda>r. key_of [''user_id''] r = y) kept)))"
      by (auto simp add: total_row_def)
  qed
  then show ?thesis
    by (simp add: bronze_totals_def groupby_def Let_def kept_def keys_def comp_def sorted_map
        sorted_wrt_map)
qed

text \<open>
  Claim C2, as stated: ties are broken in the order the users are first met in the
  aggregate. Counterexample: user b is met first and user a second, both with the
  volume 10; the grouping puts the users in ascending order, and even with a sort
  that keeps equal rows in their order the report lists a before b, where the
  reduction of the specification lists b before a.
\<close>

theorem export_top_bronze_exact_tie_order:
  "export_top_bronze_exact stable_descending tie_agg =
     Inr [\<lparr>user_id = Text ''a'', total_volume = 10, total_pnl = - 10\<rparr>,
          \<lparr>user_id = Text ''b'', total_volume = 10, total_pnl = - 10\<rparr>]
   \<and> topBronzeClients_spec tie_agg 3 =
       [\<lparr>user_id = Text ''b'', total_volume = 10, total_pnl = - 10\<rparr>,
        \<lparr>user_id = Text ''a'', total_volume = 10, total_pnl = - 10\<rparr>]"
  by code_simp

text \<open>The table of the counterexample is an aggregate the transformation produces.\<close>

lemma tie_agg_is_an_aggregate: "transform example_env tie_trades True ''error'' = Inr tie_agg"
  by code_simp

text \<open>No sort helps: the grouped sums of the table and of its mirror image are the
  same list, so the report is the same for both, whereas the specified order
  differs.\<close>

lemma tie_order_whatever_the_sort:
  "export_top_bronze_exact sort_values tie_agg = export_top_bronze_exact sort_values tie_agg_mirrored
   \<and> topBronzeClients_spec tie_agg 3 \<noteq> topBronzeClients_spec tie_agg_mirrored 3"
proof -
  have "bronze_totals tie_agg = bronze_totals tie_agg_mirrored"
    by code_simp
  moreover have "columns tie_agg = columns tie_agg_mirrored"
    by code_simp
  ultimately have "export_top_bronze_exact sort_values tie_agg
                   = export_top_bronze_exact sort_values tie_agg_mirrored"
    by (simp add: export_top_bronze_exact_def missing_from_def)
  moreover have "topBronzeClients_spec tie_agg 3 \<noteq> topBronzeClients_spec tie_agg_mirrored 3"
    by code_simp
  ultimately show ?thesis by simp
qed

text \<open>
  Claim C2, amended. For an aggregate that has the columns client_type, user_id,
  total_volume and total_pnl, and for any sort that returns its rows in descending
  order of total_volume: the report holds the first three rows of the sorted per-user
  sums, so it is in descending order of total_volume, it has three rows or as many as
  there are distinct bronze user ids when these are fewer (none when there is none),
  each row is the sum over the bronze rows of one user, no user appears twice, and a
  bronze user left out has a volume no greater than the volumes reported; the order
  of rows with equal volumes is not determined. For the users A (100), B (50), C (30)
  and D (10) the report is A, B, C.
\<close>

theorem export_top_bronze_exact_top3:
  assumes srt: "sorts_descending sort_values"
    and cols: "set [''client_type'', ''user_id'', ''total_volume'', ''total_pnl'']
               \<subseteq> set (columns agg_df)"
  shows "(\<exists>out. export_top_bronze_exact sort_values agg_df = Inr out
      \<and> sorted (rev (map total_volume out))
      \<and> length out = min 3 (card (bronze_users agg_df))
      \<and> distinct (map user_id out)
      \<and> set out \<subseteq> user_total (bronze_rows agg_df) ` bronze_users agg_df
      \<and> (\<forall>u \<in> bronze_users agg_df. u \<notin> user_id ` set out \<longrightarrow>
            (\<forall>y \<in> set out.
               total_volume (user_total (bronze_rows agg_df) u) \<le> total_volume y)))
   \<and> export_top_bronze_exact sort_values abcd_agg =
       Inr [\<lparr>user_id = Text ''A'', total_volume = 100, total_pnl = 20\<rparr>,
            \<lparr>user_id = Text ''B'', total_volume = 50, total_pnl = 50\<rparr>,
            \<lparr>user_id = Text ''C'', total_volume = 30, total_pnl = - 30\<rparr>]"
proof -
  define B where "B = bronze_rows agg_df"
  define users where "users = bronze_users agg_df"
  define xs where "xs = bronze_totals agg_df"
  define ys where "ys = sort_values xs"
  have m: "mset ys = mset xs" and s: "sorted (rev (map total_volume ys))"
    using srt by (simp_all add: sorts_descending_def ys_def)
  have ex: "export_top_bronze_exact sort_values agg_df = Inr (take 3 ys)"
    using cols by (simp add: export_top_bronze_exact_def missing_from_def xs_def ys_def)
  have set_xs: "set xs = user_total B ` users" and dist_xs: "distinct (map user_id xs)"
    and len_xs: "length xs = card users"
    unfolding xs_def B_def users_def by (rule bronze_totals_users)+
  have set_ys: "set ys = set xs"
    using m by (rule mset_eq_setD)
  have "rev (map total_volume ys)
        = rev (map total_volume (drop 3 ys)) @ rev (map total_volume (take 3 ys))"
    by (metis append_take_drop_id map_append rev_append)
  with s have 1: "sorted (rev (map total_volume (take 3 ys)))"
    by (simp add: sorted_append)
  have "length ys = length xs"
    using m by (rule mset_eq_length)
  then have 2: "length (take 3 ys) = min 3 (card users)"
    by (simp add: len_xs min.commute)
  have "mset (map user_id ys) = mset (map user_id xs)"
    using m by simp
  then have "distinct (map user_id ys)"
    using dist_xs by (metis mset_eq_imp_distinct_iff)
  then have 3: "distinct (map user_id (take 3 ys))"
    by (simp add: take_map [symmetric])
  have 4: "set (take 3 ys) \<subseteq> user_total B ` users"
    using set_take_subset [of 3 ys] by (simp add: set_ys set_xs)
  have 5: "total_volume (user_total B u) \<le> total_volume y"
    if "u \<in> users" "u \<notin> user_id ` set (take 3 ys)" "y \<in> set (take 3 ys)" for u y
  proof -
    have "user_total B u \<in> set ys"
      using that(1) by (simp add: set_ys set_xs)
    moreover have "user_total B u \<notin> set (take 3 ys)"
    proof
      assume "user_total B u \<in> set (take 3 ys)"
      then have "user_id (user_total B u) \<in> user_id ` set (take 3 ys)"
        by (rule imageI)
      with that(2) show False by (simp add: user_total_def)
    qed
    ultimately have "user_total B u \<in> set (drop 3 ys)"
      by (metis Un_iff append_take_drop_id set_append)
    with descending_take_drop [OF s, of 3] that(3) show ?thesis
      by blast
  qed
  have general: "\<exists>out. export_top_bronze_exact sort_values agg_df = Inr out
      \<and> sorted (rev (map total_volume out))
      \<and> length out = min 3 (card users)
      \<and> distinct (map user_id out)
      \<and> set out \<subseteq> user_total B ` users
      \<and> (\<forall>u \<in> users. u \<notin> user_id ` set out \<longrightarrow>
            (\<forall>y \<in> set out. total_volume (user_total B u) \<le> total_volume y))"
    using ex 1 2 3 4 5 by blast
  have bt: "bronze_totals abcd_agg =
       [\<lparr>user_id = Text ''A'', total_volume = 100, total_pnl = 20\<rparr>,
        \<lparr>user_id = Text ''B'', total_volume = 50, total_pnl = 50\<rparr>,
        \<lparr>user_id = Text ''C'', total_volume = 30, total_pnl = - 30\<rparr>,
        \<lparr>user_id = Text ''D'', total_volume = 10, total_pnl = - 10\<rparr>]"
    by code_simp
  have "distinct (map total_volume (bronze_totals abcd_agg))"
    unfolding bt by simp
  with srt have "sort_values (bronze_totals abcd_agg)
                 = rev (sort_key total_volume (bronze_totals abcd_agg))"
    by (rule sorts_descending_distinct)
  also have "\<dots> =
       [\<lparr>user_id = Text ''A'', total_volume = 100, total_pnl = 20\<rparr>,
        \<lparr>user_id = Text ''B'', total_volume = 50, total_pnl = 50\<rparr>,
        \<lparr>user_id = Text ''C'', total_volume = 30, total_pnl = - 30\<rparr>,
        \<lparr>user_id = Text ''D'', total_volume = 10, total_pnl = - 10\<rparr>]"
    unfolding bt by simp
  finally have sorted_abcd: "sort_values (bronze_totals abcd_agg) =
       [\<lparr>user_id = Text ''A'', total_volume = 100, total_pnl = 20\<rparr>,
        \<lparr>user_id = Text ''B'', total_volume = 50, total_pnl = 50\<rparr>,
        \<lparr>user_id = Text ''C'', total_volume = 30, total_pnl = - 30\<rparr>,
        \<lparr>user_id = Text ''D'', total_volume = 10, total_pnl = - 10\<rparr>]" .
  have "missing_from abcd_agg [''total_pnl'', ''total_volume''] = []"
    and "''client_type'' \<in> set (columns abcd_agg)" and "''user_id'' \<in> set (columns abcd_agg)"
    by (simp_all add: missing_from_def abcd_agg_def weekly_columns_def)
  then have example: "export_top_bronze_exact sort_values abcd_agg =
       Inr [\<lparr>user_id = Text ''A'', total_volume = 100, total_pnl = 20\<rparr>,
            \<lparr>user_id = Text ''B'', total_volume = 50, total_pnl = 50\<rparr>,
            \<lparr>user_id = Text ''C'', total_volume = 30, total_pnl = - 30\<rparr>]"
    by (simp add: export_top_bronze_exact_def sorted_abcd)
  from general example show ?thesis
    unfolding B_def users_def by (rule conjI)
qed

theorem export_top_bronze_exact_top3_witness:
  "sorts_descending stable_descending
   \<and> set [''client_type'', ''user_id'', ''total_volume'', ''total_pnl''] \<subseteq> set (columns abcd_agg)
   \<and> bronze_users abcd_agg = {Text ''A'', Text ''B'', Text ''C'', Text ''D''}
   \<and> export_top_bronze_exact stable_descending abcd_agg =
       Inr [\<lparr>user_id = Text ''A'', total_volume = 100, total_pnl = 20\<rparr>,
            \<lparr>user_id = Text ''B'', total_volume = 50, total_pnl = 50\<rparr>,
            \<lparr>user_id = Text ''C'', total_volume = 30, total_pnl = - 30\<rparr>]
   \<and> total_volume (user_total (bronze_rows abcd_agg) (Text ''D'')) = 10"
proof -
  have c: "set [''client_type'', ''user_id'', ''total_volume'', ''total_pnl'']
           \<subseteq> set (columns abcd_agg)"
    by (simp add: abcd_agg_def weekly_columns_def)
  have u: "bronze_users abcd_agg = {Text ''A'', Text ''B'', Text ''C'', Text ''D''}"
    by code_simp
  have d: "total_volume (user_total (bronze_rows abcd_agg) (Text ''D'')) = 10"
    by code_simp
  from export_top_bronze_exact_top3 [OF sorts_descending_stable c] sorts_descending_stable c u d
  show ?thesis by simp
qed

end
